theory Spec2Isabelle
  imports Main "HOL-Library.Sublist"
begin

section \<open>JavaScript values, strings and exceptions\<close>

text \<open>
  A JavaScript string is modelled as a \<open>string\<close>: each \<open>char\<close> stands for one code
  unit below 256, so every string of the model is a JavaScript string.
\<close>

text \<open>
  A JavaScript number is one of three things. An integer of the safe range, from
  \<open>-(2^53 - 1)\<close> to \<open>2^53 - 1\<close> (\<open>Number.isSafeInteger\<close>): each of them is a number, and
  its string form is its plain decimal numeral; the type \<open>safe_integer\<close> has these
  integers and no other, and \<open>-0\<close> is not told apart from \<open>0\<close>, which no code here does
  either. Or \<open>NaN\<close>. Or any other number (a fraction, an infinity, an integer beyond the
  safe range): such a number is not zero, and it is carried by its string form
  (\<open>Number::toString\<close>, as in \<open>1.5\<close>, \<open>1e+21\<close> or \<open>Infinity\<close>), which the model does not
  compute.
\<close>

typedef safe_integer = "{n :: int. - (2 ^ 53) < n \<and> n < 2 ^ 53}"
  morphisms integer_value SafeInteger
  by (rule exI [of _ 0]) simp

datatype jsnumber = IntegerNumber safe_integer | NaN | OtherNumber string

datatype jsval = JUndefined | JNull | JBool bool | JNum jsnumber | JStr string

text \<open>
  Thrown values. Every \<open>throw new Error(msg)\<close> of the source is \<open>Error msg\<close>; a
  \<open>TypeError\<close> is what the runtime throws when a property of \<open>undefined\<close> or \<open>null\<close> is
  read, or when the \<open>URL\<close> constructor rejects its input; a \<open>SyntaxError\<close> comes from
  \<open>JSON.parse\<close>; \<open>ThrownOther\<close> is any thrown value that is not an object with a string
  \<open>message\<close>.
\<close>

datatype js_exn = Error string | TypeError string | SyntaxError string | ThrownOther

definition nl :: char where
  "nl = CHR 0x0A"

definition dquote :: char where
  "dquote = CHR 0x22"

subsection \<open>Truthiness, \<open>ToString\<close> and \<open>toString()\<close>\<close>

fun truthy :: "jsval \<Rightarrow> bool" where
  "truthy JUndefined = False"
| "truthy JNull = False"
| "truthy (JBool b) = b"
| "truthy (JNum (IntegerNumber i)) = (integer_value i \<noteq> 0)"
| "truthy (JNum NaN) = False"
| "truthy (JNum (OtherNumber s)) = True"
| "truthy (JStr s) = (s \<noteq> [])"

fun digit_char :: "nat \<Rightarrow> char" where
  "digit_char n = ''0123456789'' ! (n mod 10)"

fun show_nat :: "nat \<Rightarrow> string" where
  "show_nat n = (if n < 10 then [digit_char n] else show_nat (n div 10) @ [digit_char n])"

declare show_nat.simps [simp del]

definition show_int :: "int \<Rightarrow> string" where
  "show_int i = (if i < 0 then CHR ''-'' # show_nat (nat (- i)) else show_nat (nat i))"

fun number_string :: "jsnumber \<Rightarrow> string" where
  "number_string (IntegerNumber i) = show_int (integer_value i)"
| "number_string NaN = ''NaN''"
| "number_string (OtherNumber s) = s"

text \<open>The abstract operation \<open>ToString\<close>, as used by a template literal \<open>`${v}`\<close>.\<close>

fun template_string :: "jsval \<Rightarrow> string" where
  "template_string JUndefined = ''undefined''"
| "template_string JNull = ''null''"
| "template_string (JBool b) = (if b then ''true'' else ''false'')"
| "template_string (JNum n) = number_string n"
| "template_string (JStr s) = s"

text \<open>The method call \<open>v.toString()\<close>: reading the method off \<open>undefined\<close> or \<open>null\<close> throws.\<close>

fun toString :: "jsval \<Rightarrow> js_exn + string" where
  "toString JUndefined = Inl (TypeError ''Cannot read properties of undefined (reading 'toString')'')"
| "toString JNull = Inl (TypeError ''Cannot read properties of null (reading 'toString')'')"
| "toString v = Inr (template_string v)"

subsection \<open>String built-ins: \<open>trim\<close>, \<open>split("\n")\<close>, \<open>join\<close>\<close>

text \<open>White space and line terminators of ECMAScript among the code units below 256.\<close>

definition is_whitespace :: "char \<Rightarrow> bool" where
  "is_whitespace c = (c \<in> set [CHR 0x09, CHR 0x0A, CHR 0x0B, CHR 0x0C, CHR 0x0D, CHR 0x20, CHR 0xA0])"

definition trim :: "string \<Rightarrow> string" where
  "trim s = rev (dropWhile is_whitespace (rev (dropWhile is_whitespace s)))"

fun split_nl :: "string \<Rightarrow> string list" where
  "split_nl [] = [[]]"
| "split_nl (c # cs) =
     (if c = nl then [] # split_nl cs
      else (case split_nl cs of [] \<Rightarrow> [[c]] | l # ls \<Rightarrow> (c # l) # ls))"

fun join :: "string \<Rightarrow> string list \<Rightarrow> string" where
  "join sep [] = []"
| "join sep [x] = x"
| "join sep (x # y # ys) = x @ sep @ join sep (y # ys)"

subsection \<open>Objects as ordered property lists\<close>

text \<open>
  An options object is the list of its own enumerable properties in property order
  (the order of \<open>Object.keys\<close>); keys are distinct. A property may be present with the
  value \<open>undefined\<close>, which differs from an absent property for \<open>Object.keys\<close>.
\<close>

type_synonym props = "(string \<times> jsval) list"

definition get_prop :: "props \<Rightarrow> string \<Rightarrow> jsval" where
  "get_prop ps k = (case map_of ps k of None \<Rightarrow> JUndefined | Some v \<Rightarrow> v)"

text \<open>\<open>options || {}\<close>, for an options object that may be \<open>undefined\<close> (\<open>None\<close>).\<close>

definition options_or_empty :: "props option \<Rightarrow> props" where
  "options_or_empty options = (case options of None \<Rightarrow> [] | Some ps \<Rightarrow> ps)"

text \<open>The rest of a destructuring pattern: the properties that the pattern does not name.\<close>

definition rest_props :: "string list \<Rightarrow> props \<Rightarrow> props" where
  "rest_props taken ps = filter (\<lambda>(k, v). k \<notin> set taken) ps"

section \<open>consts.ts\<close>

definition DefaultSseRetryDurationMs :: int where
  "DefaultSseRetryDurationMs = 1000"

definition DefaultElementsUseViewTransitions :: bool where
  "DefaultElementsUseViewTransitions = False"

definition DefaultPatchSignalsOnlyIfMissing :: bool where
  "DefaultPatchSignalsOnlyIfMissing = False"

definition DatastarDatalineSelector :: string where
  "DatastarDatalineSelector = ''selector''"

definition DatastarDatalinePatchMode :: string where
  "DatastarDatalinePatchMode = ''mode''"

definition DatastarDatalineElements :: string where
  "DatastarDatalineElements = ''elements''"

definition DatastarDatalineUseViewTransition :: string where
  "DatastarDatalineUseViewTransition = ''useViewTransition''"

definition DatastarDatalineSignals :: string where
  "DatastarDatalineSignals = ''signals''"

definition DatastarDatalineOnlyIfMissing :: string where
  "DatastarDatalineOnlyIfMissing = ''onlyIfMissing''"

definition ElementPatchModes :: "string list" where
  "ElementPatchModes =
     [''outer'', ''inner'', ''replace'', ''prepend'', ''append'', ''before'', ''after'', ''remove'']"

definition NamespaceTypes :: "string list" where
  "NamespaceTypes = [''svg'', ''mathml'']"

definition DefaultElementPatchMode :: string where
  "DefaultElementPatchMode = ''outer''"

datatype EventType = DatastarPatchElements | DatastarPatchSignals

fun event_name :: "EventType \<Rightarrow> string" where
  "event_name DatastarPatchElements = ''datastar-patch-elements''"
| "event_name DatastarPatchSignals = ''datastar-patch-signals''"

text \<open>
  Modelled from the spec: \<open>DefaultMapping\<close> is declared in \<open>types.ts\<close>, which is not
  among the sources. The spec describes it as the fixed mapping from option key to
  default value; the keys are the three options for which \<open>consts.ts\<close> declares a
  default, with those defaults as values.
\<close>

definition DefaultMapping :: props where
  "DefaultMapping =
     [(DatastarDatalinePatchMode, JStr DefaultElementPatchMode),
      (DatastarDatalineUseViewTransition, JBool DefaultElementsUseViewTransitions),
      (DatastarDatalineOnlyIfMissing, JBool DefaultPatchSignalsOnlyIfMissing)]"

text \<open>
  Modelled from the spec: the type \<open>PatchElementsOptions\<close> is declared in \<open>types.ts\<close> too.
  The spec lists its properties: a mode among the eight patch modes, a selector string, a
  boolean \<open>useViewTransition\<close>, a namespace among the namespace types, an event id and a
  retry duration. An options object is well typed here when each property it has is one
  of these, with a defined value of that type.
\<close>

fun well_typed_option :: "string \<times> jsval \<Rightarrow> bool" where
  "well_typed_option (k, JStr s) =
     (k = ''mode'' \<and> s \<in> set ElementPatchModes \<or> k = ''selector''
      \<or> k = ''namespace'' \<and> s \<in> set NamespaceTypes \<or> k = ''eventId'')"
| "well_typed_option (k, JBool b) = (k = ''useViewTransition'')"
| "well_typed_option (k, JNum n) = (k = ''retryDuration'')"
| "well_typed_option (k, JUndefined) = False"
| "well_typed_option (k, JNull) = False"

definition PatchElementsOptions :: "props \<Rightarrow> bool" where
  "PatchElementsOptions ps = (distinct (map fst ps) \<and> list_all well_typed_option ps)"

section \<open>abstractServerSentEventGenerator.ts\<close>

definition validateElementPatchMode :: "jsval \<Rightarrow> js_exn + unit" where
  "validateElementPatchMode mode =
     (if (case mode of JStr m \<Rightarrow> m \<in> set ElementPatchModes | _ \<Rightarrow> False) then Inr ()
      else Inl (Error (''Invalid ElementPatchMode: '' @ [dquote] @ template_string mode @ [dquote]
                        @ ''. Valid modes are: '' @ join '', '' ElementPatchModes)))"

definition is_blank :: "string option \<Rightarrow> bool" where
  "is_blank value = (case value of None \<Rightarrow> True | Some s \<Rightarrow> s = [] \<or> trim s = [])"

definition validateRequired :: "string option \<Rightarrow> string \<Rightarrow> js_exn + unit" where
  "validateRequired value paramName =
     (if is_blank value then Inl (Error (paramName @ '' is required and cannot be empty''))
      else Inr ())"

definition send :: "EventType \<Rightarrow> string list \<Rightarrow> props option \<Rightarrow> string list" where
  "send event dataLines options =
     (let opts = options_or_empty options;
          eventId = get_prop opts ''eventId'';
          retryDuration = get_prop opts ''retryDuration'';
          typeLine = [''event: '' @ event_name event @ [nl]];
          idLine = (if truthy eventId then [''id: '' @ template_string eventId @ [nl]] else []);
          retryLine =
            (if \<not> truthy retryDuration \<or> retryDuration = JNum (IntegerNumber (SafeInteger 1000))
             then []
             else [''retry: '' @ template_string
                     (if retryDuration = JUndefined \<or> retryDuration = JNull
                      then JNum (IntegerNumber (SafeInteger DefaultSseRetryDurationMs))
                      else retryDuration) @ [nl]])
      in typeLine @ idLine @ retryLine @ map (\<lambda>data. ''data: '' @ data @ [nl]) dataLines @ [[nl]])"

definition eachNewlineIsADataLine :: "string \<Rightarrow> string \<Rightarrow> string list" where
  "eachNewlineIsADataLine pre data = map (\<lambda>line. pre @ '' '' @ line) (split_nl data)"

text \<open>
  \<open>key in DefaultMapping\<close> also holds for the keys inherited from \<open>Object.prototype\<close>;
  for those the comparison \<open>val === DefaultMapping[key]\<close> is against a function or an
  object and is false for every primitive \<open>val\<close>, the same result as for a key that is
  not in the mapping.
\<close>

definition hasDefaultValue :: "string \<Rightarrow> jsval \<Rightarrow> bool" where
  "hasDefaultValue key val =
     (case map_of DefaultMapping key of Some d \<Rightarrow> val = d | None \<Rightarrow> False)"

text \<open>The \<open>flatMap\<close> of \<open>eachOptionIsADataLine\<close>: the first \<open>toString()\<close> that throws ends it.\<close>

fun flatMap_lines :: "props \<Rightarrow> js_exn + string list" where
  "flatMap_lines [] = Inr []"
| "flatMap_lines ((key, v) # rest) =
     (case toString v of
        Inl e \<Rightarrow> Inl e
      | Inr s \<Rightarrow>
          (case flatMap_lines rest of
             Inl e \<Rightarrow> Inl e
           | Inr ls \<Rightarrow> Inr (eachNewlineIsADataLine key s @ ls)))"

definition eachOptionIsADataLine :: "props \<Rightarrow> js_exn + string list" where
  "eachOptionIsADataLine options =
     flatMap_lines (filter (\<lambda>(key, v). \<not> hasDefaultValue key v) options)"

definition isRemoveWithSelector :: "props \<Rightarrow> bool" where
  "isRemoveWithSelector renderOptions =
     (get_prop renderOptions DatastarDatalinePatchMode = JStr ''remove''
      \<and> truthy (get_prop renderOptions DatastarDatalineSelector))"

text \<open>
  \<open>patchElements\<close>, statement by statement. \<open>elements\<close> is \<open>None\<close> when the caller passes
  \<open>undefined\<close>, and so is \<open>options\<close>.
\<close>

definition patchElements :: "string option \<Rightarrow> props option \<Rightarrow> js_exn + string list" where
  "patchElements elements options =
     (let opts = options_or_empty options;
          eventId = get_prop opts ''eventId'';
          retryDuration = get_prop opts ''retryDuration'';
          renderOptions = rest_props [''eventId'', ''retryDuration''] opts;
          patchMode = get_prop renderOptions DatastarDatalinePatchMode;
          selector = get_prop renderOptions DatastarDatalineSelector
      in case (if truthy patchMode then validateElementPatchMode patchMode else Inr ()) of
           Inl e \<Rightarrow> Inl e
         | Inr _ \<Rightarrow>
         (case (if \<not> isRemoveWithSelector renderOptions
                then validateRequired elements ''elements'' else Inr ()) of
            Inl e \<Rightarrow> Inl e
          | Inr _ \<Rightarrow>
          if \<not> truthy selector \<and> patchMode = JStr ''remove'' \<and> is_blank elements
          then Inl (Error ''For remove mode without selector, elements parameter with IDs is required'')
          else
          (case eachOptionIsADataLine renderOptions of
             Inl e \<Rightarrow> Inl e
           | Inr dataLines \<Rightarrow>
           (case elements of
              None \<Rightarrow>
                Inl (TypeError (if isRemoveWithSelector renderOptions
                  then ''Cannot read properties of undefined (reading 'trim')''
                  else ''Cannot read properties of undefined (reading 'split')''))
            | Some els \<Rightarrow>
                Inr (send DatastarPatchElements
                       (if \<not> isRemoveWithSelector renderOptions \<or> trim els \<noteq> []
                        then dataLines @ eachNewlineIsADataLine DatastarDatalineElements els
                        else dataLines)
                       (Some [(''eventId'', eventId), (''retryDuration'', retryDuration)]))))))"

definition patchSignals :: "string option \<Rightarrow> props option \<Rightarrow> js_exn + string list" where
  "patchSignals signals options =
     (case validateRequired signals ''signals'' of
        Inl e \<Rightarrow> Inl e
      | Inr _ \<Rightarrow>
        (let opts = options_or_empty options;
             eventId = get_prop opts ''eventId'';
             retryDuration = get_prop opts ''retryDuration'';
             eventOptions = rest_props [''eventId'', ''retryDuration''] opts
         in case eachOptionIsADataLine eventOptions of
              Inl e \<Rightarrow> Inl e
            | Inr optionLines \<Rightarrow>
              (case signals of
                 None \<Rightarrow> Inl (TypeError ''Cannot read properties of undefined (reading 'split')'')
               | Some sig \<Rightarrow>
                   Inr (send DatastarPatchSignals
                          (optionLines @ eachNewlineIsADataLine DatastarDatalineSignals sig)
                          (Some [(''eventId'', eventId), (''retryDuration'', retryDuration)])))))"

definition optional_string :: "string option \<Rightarrow> jsval" where
  "optional_string x = (case x of None \<Rightarrow> JUndefined | Some s \<Rightarrow> JStr s)"

definition optional_number :: "jsnumber option \<Rightarrow> jsval" where
  "optional_number x = (case x of None \<Rightarrow> JUndefined | Some n \<Rightarrow> JNum n)"

definition optional_get :: "props option \<Rightarrow> string \<Rightarrow> jsval" where
  "optional_get options k = (case options of None \<Rightarrow> JUndefined | Some ps \<Rightarrow> get_prop ps k)"

definition removeElements ::
  "string option \<Rightarrow> string option \<Rightarrow> props option \<Rightarrow> js_exn + string list" where
  "removeElements selector elements options =
     (if \<not> truthy (optional_string selector) \<and> is_blank elements
      then Inl (Error ''Either selector or elements (with IDs) must be provided to remove elements.'')
      else patchElements (Some (case elements of None \<Rightarrow> [] | Some s \<Rightarrow> s))
             (Some [(''selector'', optional_string selector),
                    (''mode'', JStr ''remove''),
                    (''eventId'', optional_get options ''eventId''),
                    (''retryDuration'', optional_get options ''retryDuration'')]))"

subsection \<open>The object built by \<open>removeSignals\<close> and its JSON text\<close>

text \<open>
  \<open>removeSignals\<close> starts from the literal \<open>{}\<close>, an ordinary object whose prototype is
  \<open>Object.prototype\<close>, and assigns \<open>patch[key] = null\<close> for each key. The model keeps
  what \<open>JSON.stringify\<close> can observe of that object: its prototype and its own
  properties in property order (array indices in ascending numeric order first, then
  the other keys in the order of their creation).
\<close>

datatype prototype = ObjectPrototype | NullPrototype

record js_object =
  proto :: prototype
  own :: props

definition empty_object :: js_object where
  "empty_object = \<lparr>proto = ObjectPrototype, own = []\<rparr>"

definition is_digit :: "char \<Rightarrow> bool" where
  "is_digit c = (c \<in> set ''0123456789'')"

definition digits_value :: "string \<Rightarrow> nat" where
  "digits_value s = foldl (\<lambda>n c. 10 * n + (of_char c - 48)) 0 s"

text \<open>An array index is the canonical decimal numeral of an integer from 0 to \<open>2^32 - 2\<close>.\<close>

definition is_array_index :: "string \<Rightarrow> bool" where
  "is_array_index k =
     (k \<noteq> [] \<and> list_all is_digit k \<and> (k = ''0'' \<or> hd k \<noteq> CHR ''0'')
      \<and> digits_value k < 2 ^ 32 - 1)"

fun insert_index :: "string \<Rightarrow> jsval \<Rightarrow> props \<Rightarrow> props" where
  "insert_index k v [] = [(k, v)]"
| "insert_index k v ((k', v') # ps) =
     (if is_array_index k' \<and> digits_value k' < digits_value k
      then (k', v') # insert_index k v ps
      else (k, v) # (k', v') # ps)"

text \<open>\<open>CreateDataProperty\<close>: a new own property, or a new value for an existing one.\<close>

definition define_own :: "string \<Rightarrow> jsval \<Rightarrow> props \<Rightarrow> props" where
  "define_own k v ps =
     (if k \<in> set (map fst ps) then map (\<lambda>(k', v'). if k' = k then (k', v) else (k', v')) ps
      else if is_array_index k then insert_index k v ps
      else ps @ [(k, v)])"

text \<open>
  The assignment \<open>obj[k] = v\<close> on such an object, on Node.js. A key that is not an own
  property is looked up along the prototype chain; every property of \<open>Object.prototype\<close>
  is a writable data property, for which the assignment creates an own property, except
  the accessor \<open>__proto__\<close>, whose setter replaces the prototype when \<open>v\<close> is \<open>null\<close> (or an
  object) and does nothing for any other primitive. An object without prototype has no
  such accessor.
\<close>

definition assign :: "js_object \<Rightarrow> string \<Rightarrow> jsval \<Rightarrow> js_object" where
  "assign obj k v =
     (if k \<in> set (map fst (own obj)) then obj\<lparr>own := define_own k v (own obj)\<rparr>
      else if k = ''__proto__'' \<and> proto obj = ObjectPrototype
      then (if v = JNull then obj\<lparr>proto := NullPrototype\<rparr> else obj)
      else obj\<lparr>own := define_own k v (own obj)\<rparr>)"

definition hex_digit :: "nat \<Rightarrow> char" where
  "hex_digit n = ''0123456789abcdef'' ! (n mod 16)"

text \<open>\<open>QuoteJSONString\<close> on code units below 256.\<close>

definition json_escape :: "char \<Rightarrow> string" where
  "json_escape c =
     (if c = CHR 0x08 then [CHR 0x5C, CHR ''b'']
      else if c = CHR 0x09 then [CHR 0x5C, CHR ''t'']
      else if c = CHR 0x0A then [CHR 0x5C, CHR ''n'']
      else if c = CHR 0x0C then [CHR 0x5C, CHR ''f'']
      else if c = CHR 0x0D then [CHR 0x5C, CHR ''r'']
      else if c = CHR 0x22 then [CHR 0x5C, CHR 0x22]
      else if c = CHR 0x5C then [CHR 0x5C, CHR 0x5C]
      else if (of_char c :: nat) < 32
      then [CHR 0x5C, CHR ''u'', CHR ''0'', CHR ''0'',
            hex_digit (of_char c div 16), hex_digit (of_char c)]
      else [c])"

definition QuoteJSONString :: "string \<Rightarrow> string" where
  "QuoteJSONString s = [dquote] @ concat (map json_escape s) @ [dquote]"

fun SerializeJSONProperty :: "jsval \<Rightarrow> string option" where
  "SerializeJSONProperty JUndefined = None"
| "SerializeJSONProperty JNull = Some ''null''"
| "SerializeJSONProperty (JBool b) = Some (if b then ''true'' else ''false'')"
| "SerializeJSONProperty (JNum (IntegerNumber i)) = Some (show_int (integer_value i))"
| "SerializeJSONProperty (JNum NaN) = Some ''null''"
| "SerializeJSONProperty (JNum (OtherNumber s)) =
     Some (if s = ''Infinity'' \<or> s = ''-Infinity'' then ''null'' else s)"
| "SerializeJSONProperty (JStr s) = Some (QuoteJSONString s)"

fun json_members :: "props \<Rightarrow> string list" where
  "json_members [] = []"
| "json_members ((k, v) # ps) =
     (case SerializeJSONProperty v of
        None \<Rightarrow> json_members ps
      | Some str \<Rightarrow> (QuoteJSONString k @ '':'' @ str) # json_members ps)"

text \<open>\<open>JSON.stringify\<close> of an object with primitive property values, without indentation.\<close>

definition JSON_stringify :: "props \<Rightarrow> string" where
  "JSON_stringify ps = ''{'' @ join '','' (json_members ps) @ ''}''"

datatype signal_keys = OneKey string | ManyKeys "string list"

definition removeSignals :: "signal_keys \<Rightarrow> props option \<Rightarrow> js_exn + string list" where
  "removeSignals signalKeys options =
     (let keys = (case signalKeys of ManyKeys ks \<Rightarrow> ks | OneKey k \<Rightarrow> [k]);
          patch = foldl (\<lambda>obj key. assign obj key JNull) empty_object keys
      in patchSignals (Some (JSON_stringify (own patch))) options)"

text \<open>
  The object that maps each key of a list to \<open>null\<close>, as the specification words the
  merge patch of \<open>removeSignals\<close>: every key of the list is an own property with the value
  \<open>null\<close>.
\<close>

definition null_patch_spec :: "string list \<Rightarrow> props" where
  "null_patch_spec ks = foldl (\<lambda>ps key. define_own key JNull ps) [] ks"

section \<open>node/serverSentEventGenerator.ts\<close>

text \<open>
  The value of \<open>JSON.parse\<close>. Its numbers are kept as integers; \<open>readSignals\<close> only
  asks which kind of value it got.
\<close>

datatype json =
    JsonNull
  | JsonBool bool
  | JsonNumber int
  | JsonString string
  | JsonArray "json list"
  | JsonObject "(string \<times> json) list"

text \<open>\<open>typeof obj === "object" && obj !== null\<close>; \<open>typeof\<close> is \<open>"object"\<close> for \<open>null\<close>, for
  arrays and for objects.\<close>

fun isRecord :: "json \<Rightarrow> bool" where
  "isRecord JsonNull = False"
| "isRecord (JsonBool b) = False"
| "isRecord (JsonNumber n) = False"
| "isRecord (JsonString s) = False"
| "isRecord (JsonArray xs) = True"
| "isRecord (JsonObject ms) = True"

text \<open>
  The two built-ins of the platform that \<open>readSignals\<close> calls are parameters of the
  model: \<open>URL_searchParams u\<close> is \<open>new URL(u).searchParams\<close> as the list of its decoded
  name-value pairs, or the exception of the constructor; \<open>JSON_parse\<close> is \<open>JSON.parse\<close>.
\<close>

record platform =
  URL_searchParams :: "string \<Rightarrow> js_exn + (string \<times> string) list"
  JSON_parse :: "string \<Rightarrow> js_exn + json"

text \<open>The request as \<open>readSignals\<close> sees it: \<open>request.method\<close>, \<open>request.url\<close>, and the chunks of
  the \<open>data\<close> events that precede \<open>end\<close>.\<close>

record IncomingMessage =
  http_method :: string
  url :: string
  chunks :: "string list"

datatype read_result = Success json | Failure string

text \<open>Both \<open>catch\<close> blocks: an object with a string \<open>message\<close> gives that message.\<close>

fun catch_block :: "js_exn \<Rightarrow> read_result" where
  "catch_block (Error m) = Failure m"
| "catch_block (TypeError m) = Failure m"
| "catch_block (SyntaxError m) = Failure m"
| "catch_block ThrownOther = Failure ''unknown error when parsing request''"

definition try_catch :: "js_exn + read_result \<Rightarrow> read_result" where
  "try_catch r = (case r of Inl e \<Rightarrow> catch_block e | Inr x \<Rightarrow> x)"

text \<open>
  \<open>readSignals\<close>: \<open>Inl e\<close> is the promise rejected with \<open>e\<close>, that is an exception for the
  awaiting caller; \<open>Inr r\<close> is the promise fulfilled with \<open>r\<close>. \<open>HOST\<close> is
  \<open>process.env.HOST\<close>.
\<close>

definition readSignals ::
  "platform \<Rightarrow> string option \<Rightarrow> IncomingMessage \<Rightarrow> js_exn + read_result" where
  "readSignals P HOST request =
     (if http_method request = ''GET'' then
        (case URL_searchParams P
                (''http://'' @ (case HOST of None \<Rightarrow> ''localhost'' | Some h \<Rightarrow> h) @ url request) of
           Inl e \<Rightarrow> Inl e
         | Inr params \<Rightarrow>
             Inr (try_catch
               (case map_of params ''datastar'' of
                  Some text \<Rightarrow>
                    (case JSON_parse P text of
                       Inl e \<Rightarrow> Inl e
                     | Inr signals \<Rightarrow>
                         if isRecord signals then Inr (Success signals)
                         else Inl (Error ''Datastar param is not a record''))
                | None \<Rightarrow> Inl (Error ''No datastar object in request''))))
      else
        (let body = concat (chunks request)
         in Inr (try_catch
              (case JSON_parse P body of
                 Inl e \<Rightarrow> Inl e
               | Inr parsedBody \<Rightarrow>
                   if isRecord parsedBody then Inr (Success parsedBody)
                   else Inl (Error ''Parsed JSON body is not of type record'')))))"

section \<open>Auxiliary facts\<close>

lemma get_prop_rest_props:
  "k \<notin> set taken \<Longrightarrow> get_prop (rest_props taken ps) k = get_prop ps k"
  by (induction ps) (auto simp: get_prop_def rest_props_def)

lemma dropWhile_rev_dropWhile_Nil:
  "dropWhile P (rev (dropWhile P s)) = [] \<longleftrightarrow> (\<forall>x\<in>set s. P x)"
proof
  assume "dropWhile P (rev (dropWhile P s)) = []"
  then have all: "\<forall>x\<in>set (dropWhile P s). P x"
    by (simp add: dropWhile_eq_Nil_conv)
  have "dropWhile P s = []"
  proof (rule ccontr)
    assume ne: "dropWhile P s \<noteq> []"
    then have "\<not> P (hd (dropWhile P s))" by (rule hd_dropWhile)
    with all ne show False by (meson hd_in_set)
  qed
  then show "\<forall>x\<in>set s. P x" by (simp add: dropWhile_eq_Nil_conv)
next
  assume "\<forall>x\<in>set s. P x"
  then show "dropWhile P (rev (dropWhile P s)) = []"
    by (auto dest: set_dropWhileD)
qed

lemma trim_Nil_iff: "trim s = [] \<longleftrightarrow> list_all is_whitespace s"
  by (simp only: trim_def rev_is_Nil_conv dropWhile_rev_dropWhile_Nil list_all_iff)

lemma is_blank_Some: "is_blank (Some s) \<longleftrightarrow> list_all is_whitespace s"
  by (cases s) (auto simp: is_blank_def trim_Nil_iff)

lemma join_ElementPatchModes:
  "join '', '' ElementPatchModes = ''outer, inner, replace, prepend, append, before, after, remove''"
  by (simp add: ElementPatchModes_def)

lemma get_prop_cases:
  "get_prop ps k = JUndefined \<or> (k, get_prop ps k) \<in> set ps"
  by (auto simp: get_prop_def dest: map_of_SomeD split: option.splits)

lemma typed_mode:
  assumes "list_all well_typed_option ps"
  shows "get_prop ps ''mode'' = JUndefined \<or> (\<exists>m\<in>set ElementPatchModes. get_prop ps ''mode'' = JStr m)"
proof -
  from get_prop_cases [of ps "''mode''"] show ?thesis
  proof
    assume "(''mode'', get_prop ps ''mode'') \<in> set ps"
    with assms have "well_typed_option (''mode'', get_prop ps ''mode'')"
      by (simp add: list_all_iff)
    then show ?thesis by (cases "get_prop ps ''mode''") auto
  qed simp
qed

lemma typed_selector:
  assumes "list_all well_typed_option ps"
  shows "get_prop ps ''selector'' = JUndefined \<or> (\<exists>s. get_prop ps ''selector'' = JStr s)"
proof -
  from get_prop_cases [of ps "''selector''"] show ?thesis
  proof
    assume "(''selector'', get_prop ps ''selector'') \<in> set ps"
    with assms have "well_typed_option (''selector'', get_prop ps ''selector'')"
      by (simp add: list_all_iff)
    then show ?thesis by (cases "get_prop ps ''selector''") auto
  qed simp
qed

lemma mode_check_typed:
  assumes "list_all well_typed_option ps"
  shows "(if truthy (get_prop ps ''mode'') then validateElementPatchMode (get_prop ps ''mode'')
          else Inr ()) = Inr ()"
  using typed_mode [OF assms] by (auto simp: validateElementPatchMode_def)

lemma flatMap_lines_defined:
  assumes "list_all (\<lambda>(k, v). v \<noteq> JUndefined \<and> v \<noteq> JNull) ps"
  shows "flatMap_lines ps =
     Inr (concat (map (\<lambda>(k, v). eachNewlineIsADataLine k (template_string v)) ps))"
  using assms
proof (induction ps)
  case Nil
  then show ?case by simp
next
  case (Cons p ps)
  obtain k v where p: "p = (k, v)" by (cases p)
  with Cons show ?case by (cases v) auto
qed

lemma well_typed_defined:
  "well_typed_option (k, v) \<Longrightarrow> v \<noteq> JUndefined \<and> v \<noteq> JNull"
  by (cases v) auto

lemma eachOptionIsADataLine_typed:
  assumes "list_all well_typed_option ps"
  shows "eachOptionIsADataLine ps =
     Inr (concat (map (\<lambda>(k, v). eachNewlineIsADataLine k (template_string v))
                      (filter (\<lambda>(key, v). \<not> hasDefaultValue key v) ps)))"
  using assms unfolding eachOptionIsADataLine_def
  by (intro flatMap_lines_defined) (auto simp: list_all_iff dest: well_typed_defined)


lemma isRemoveWithSelector_rest [simp]:
  "isRemoveWithSelector (rest_props [''eventId'', ''retryDuration''] ps) = isRemoveWithSelector ps"
  by (simp add: isRemoveWithSelector_def get_prop_rest_props DatastarDatalinePatchMode_def
        DatastarDatalineSelector_def)

lemma remove_is_valid: "validateElementPatchMode (JStr ''remove'') = Inr ()"
  by (simp add: validateElementPatchMode_def ElementPatchModes_def)

lemma patchElements_nonblank:
  assumes "(if truthy (get_prop (options_or_empty options) ''mode'')
            then validateElementPatchMode (get_prop (options_or_empty options) ''mode'')
            else Inr ()) = Inr ()"
      and "\<not> is_blank (Some els)"
      and "eachOptionIsADataLine (rest_props [''eventId'', ''retryDuration''] (options_or_empty options))
             = Inr dl"
  shows "patchElements (Some els) options =
     Inr (send DatastarPatchElements (dl @ eachNewlineIsADataLine ''elements'' els)
            (Some [(''eventId'', get_prop (options_or_empty options) ''eventId''),
                   (''retryDuration'', get_prop (options_or_empty options) ''retryDuration'')]))"
  using assms
  by (auto simp: patchElements_def Let_def get_prop_rest_props DatastarDatalinePatchMode_def
        DatastarDatalineSelector_def DatastarDatalineElements_def validateRequired_def
        is_blank_def)

lemma patchElements_blank:
  assumes "(if truthy (get_prop (options_or_empty options) ''mode'')
            then validateElementPatchMode (get_prop (options_or_empty options) ''mode'')
            else Inr ()) = Inr ()"
      and "is_blank elements"
      and "\<not> isRemoveWithSelector (options_or_empty options)"
  shows "patchElements elements options = Inl (Error ''elements is required and cannot be empty'')"
  using assms
  by (auto simp: patchElements_def Let_def get_prop_rest_props DatastarDatalinePatchMode_def
        validateRequired_def)

lemma patchElements_remove_with_selector:
  assumes "isRemoveWithSelector (options_or_empty options)"
      and "trim els = []"
      and "eachOptionIsADataLine (rest_props [''eventId'', ''retryDuration''] (options_or_empty options))
             = Inr dl"
  shows "patchElements (Some els) options =
     Inr (send DatastarPatchElements dl
            (Some [(''eventId'', get_prop (options_or_empty options) ''eventId''),
                   (''retryDuration'', get_prop (options_or_empty options) ''retryDuration'')]))"
  using assms
  by (auto simp: patchElements_def Let_def get_prop_rest_props DatastarDatalinePatchMode_def
        DatastarDatalineSelector_def isRemoveWithSelector_def remove_is_valid)

lemma render_keys:
  assumes "list_all well_typed_option opts"
      and "(k, v) \<in> set (rest_props [''eventId'', ''retryDuration''] opts)"
  shows "k \<in> {''mode'', ''selector'', ''namespace'', ''useViewTransition''}"
proof -
  from assms have "well_typed_option (k, v)" and "k \<noteq> ''eventId''" and "k \<noteq> ''retryDuration''"
    by (auto simp: rest_props_def list_all_iff)
  then show ?thesis by (cases v) auto
qed

lemma render_typed:
  "list_all well_typed_option opts \<Longrightarrow>
   list_all well_typed_option (rest_props [''eventId'', ''retryDuration''] opts)"
  by (auto simp: rest_props_def list_all_iff)

lemma option_lines_form:
  assumes "list_all well_typed_option opts"
      and "eachOptionIsADataLine (rest_props [''eventId'', ''retryDuration''] opts) = Inr dl"
      and "x \<in> set dl"
  shows "\<exists>k line. k \<in> {''mode'', ''selector'', ''namespace'', ''useViewTransition''}
           \<and> x = k @ '' '' @ line"
proof -
  let ?ro = "rest_props [''eventId'', ''retryDuration''] opts"
  from assms(2) eachOptionIsADataLine_typed [OF render_typed [OF assms(1)]]
  have "dl = concat (map (\<lambda>(k, v). eachNewlineIsADataLine k (template_string v))
                      (filter (\<lambda>(key, v). \<not> hasDefaultValue key v) ?ro))"
    by simp
  with assms(3) obtain k v where kv: "(k, v) \<in> set ?ro"
    and x: "x \<in> set (eachNewlineIsADataLine k (template_string v))"
    by auto
  from x obtain line where "x = k @ '' '' @ line"
    by (auto simp: eachNewlineIsADataLine_def)
  with render_keys [OF assms(1) kv] show ?thesis by blast
qed

lemma send_no_elements_line:
  assumes "\<forall>x\<in>set dl. \<exists>k line. k \<in> {''mode'', ''selector'', ''namespace'', ''useViewTransition''}
              \<and> x = k @ '' '' @ line"
      and "l \<in> set (send event dl options)"
  shows "\<not> prefix ''data: elements'' l"
  using assms
  by (auto simp: send_def Let_def nl_def split: if_splits)

section \<open>Framing of one event\<close>

lemma SafeInteger_1000: "(i = SafeInteger 1000) = (integer_value i = 1000)"
proof
  assume "i = SafeInteger 1000"
  then show "integer_value i = 1000" by (simp add: SafeInteger_inverse)
next
  assume "integer_value i = 1000"
  then have "SafeInteger (integer_value i) = SafeInteger 1000" by simp
  then show "i = SafeInteger 1000" by (simp only: integer_value_inverse)
qed

lemma retry_line_cases:
  "(if \<not> truthy (optional_number retryDuration)
       \<or> optional_number retryDuration = JNum (IntegerNumber (SafeInteger 1000))
    then []
    else [''retry: '' @ template_string
            (if optional_number retryDuration = JUndefined \<or> optional_number retryDuration = JNull
             then JNum (IntegerNumber (SafeInteger DefaultSseRetryDurationMs))
             else optional_number retryDuration) @ [nl]])
   = (case retryDuration of
        None \<Rightarrow> []
      | Some (IntegerNumber r) \<Rightarrow>
          if integer_value r = 0 \<or> integer_value r = 1000 then []
          else [''retry: '' @ show_int (integer_value r) @ ''\<newline>'']
      | Some NaN \<Rightarrow> []
      | Some (OtherNumber ms) \<Rightarrow> [''retry: '' @ ms @ ''\<newline>''])"
proof (cases retryDuration)
  case None
  then show ?thesis by (simp add: optional_number_def)
next
  case (Some n)
  then show ?thesis
    by (cases n) (simp_all add: optional_number_def SafeInteger_1000 nl_def)
qed

lemma id_line_cases:
  "(if truthy (optional_string eventId)
    then [''id: '' @ template_string (optional_string eventId) @ [nl]] else [])
   = (case eventId of None \<Rightarrow> [] | Some i \<Rightarrow> if i = [] then [] else [''id: '' @ i @ ''\<newline>''])"
  by (cases eventId) (simp_all add: optional_string_def nl_def)

text \<open>
  C4 (as amended). \<open>send\<close> returns, in this order: the line \<open>event: <type>\<close>; the line
  \<open>id: <eventId>\<close> exactly when an event id is given and is not the empty string; the
  line \<open>retry: <ms>\<close> exactly when a retry duration is given and is none of 0, \<open>NaN\<close> and
  1000, where \<open><ms>\<close> is the string form of the number, the plain decimal numeral for an
  integer of the safe range; one line \<open>data: <entry>\<close> for each entry of the data lines,
  in their order; and the terminator line. Every line ends with a newline.
\<close>

theorem send_framing:
  assumes "get_prop opts ''eventId'' = optional_string eventId"
      and "get_prop opts ''retryDuration'' = optional_number retryDuration"
  shows "send event dataLines (Some opts) =
     [''event: '' @ event_name event @ ''\<newline>'']
     @ (case eventId of None \<Rightarrow> [] | Some i \<Rightarrow> if i = [] then [] else [''id: '' @ i @ ''\<newline>''])
     @ (case retryDuration of
          None \<Rightarrow> []
        | Some (IntegerNumber r) \<Rightarrow>
            if integer_value r = 0 \<or> integer_value r = 1000 then []
            else [''retry: '' @ show_int (integer_value r) @ ''\<newline>'']
        | Some NaN \<Rightarrow> []
        | Some (OtherNumber ms) \<Rightarrow> [''retry: '' @ ms @ ''\<newline>''])
     @ map (\<lambda>d. ''data: '' @ d @ ''\<newline>'') dataLines
     @ [''\<newline>'']"
  by (simp only: send_def Let_def options_or_empty_def option.case assms
        retry_line_cases id_line_cases)
     (simp add: nl_def)

theorem send_framing_witness:
  "get_prop [(''eventId'', JStr ''7''), (''retryDuration'', JNum (IntegerNumber (SafeInteger 1500)))]
       ''eventId''
     = optional_string (Some ''7'')
   \<and> get_prop [(''eventId'', JStr ''7''), (''retryDuration'', JNum (IntegerNumber (SafeInteger 1500)))]
       ''retryDuration''
     = optional_number (Some (IntegerNumber (SafeInteger 1500)))
   \<and> send DatastarPatchSignals [''a'', ''b'']
        (Some [(''eventId'', JStr ''7''),
               (''retryDuration'', JNum (IntegerNumber (SafeInteger 1500)))]) =
      [''event: datastar-patch-signals\<newline>'', ''id: 7\<newline>'', ''retry: 1500\<newline>'',
       ''data: a\<newline>'', ''data: b\<newline>'', ''\<newline>'']
   \<and> send DatastarPatchSignals [''a'', ''b'']
        (Some [(''eventId'', JStr ''7''), (''retryDuration'', JNum (OtherNumber ''1e+21''))]) =
      [''event: datastar-patch-signals\<newline>'', ''id: 7\<newline>'', ''retry: 1e+21\<newline>'',
       ''data: a\<newline>'', ''data: b\<newline>'', ''\<newline>'']
   \<and> send DatastarPatchSignals [''a'', ''b'']
        (Some [(''eventId'', JStr ''7''), (''retryDuration'', JNum NaN)]) =
      [''event: datastar-patch-signals\<newline>'', ''id: 7\<newline>'',
       ''data: a\<newline>'', ''data: b\<newline>'', ''\<newline>'']"
  using send_framing [of "[(''eventId'', JStr ''7''),
                           (''retryDuration'', JNum (IntegerNumber (SafeInteger 1500)))]"
                         "Some ''7''" "Some (IntegerNumber (SafeInteger 1500))"
                         DatastarPatchSignals "[''a'', ''b'']"]
        send_framing [of "[(''eventId'', JStr ''7''), (''retryDuration'', JNum (OtherNumber ''1e+21''))]"
                         "Some ''7''" "Some (OtherNumber ''1e+21'')"
                         DatastarPatchSignals "[''a'', ''b'']"]
        send_framing [of "[(''eventId'', JStr ''7''), (''retryDuration'', JNum NaN)]"
                         "Some ''7''" "Some NaN" DatastarPatchSignals "[''a'', ''b'']"]
  by (simp add: get_prop_def optional_string_def optional_number_def show_int_def show_nat.simps
        SafeInteger_inverse)

text \<open>
  C4 as stated fails: with the event id \<open>""\<close> and the retry duration 0, both given,
  \<open>send\<close> emits neither an \<open>id:\<close> line nor a \<open>retry:\<close> line.
\<close>

theorem send_falsy_options_counterexample:
  "send DatastarPatchElements [''elements <p id=x></p>'']
        (Some [(''eventId'', JStr ''''), (''retryDuration'', JNum (IntegerNumber (SafeInteger 0)))]) =
     [''event: datastar-patch-elements\<newline>'', ''data: elements <p id=x></p>\<newline>'', ''\<newline>'']"
  by (simp add: send_def options_or_empty_def get_prop_def nl_def SafeInteger_inverse)

section \<open>Validation of the patch mode\<close>

text \<open>
  C3 (as amended). For every supplied mode string that is not empty and is not one of
  the eight patch modes, \<open>patchElements\<close> fails, whatever the elements and the other
  options are, with the error whose message quotes the offending value and lists the
  eight valid modes.
\<close>

theorem patchElements_invalid_mode:
  assumes "get_prop opts ''mode'' = JStr m" and "m \<noteq> []" and "m \<notin> set ElementPatchModes"
  shows "patchElements elements (Some opts) =
     Inl (Error (''Invalid ElementPatchMode: '' @ [dquote] @ m @ [dquote]
            @ ''. Valid modes are: outer, inner, replace, prepend, append, before, after, remove''))"
  using assms
  by (simp add: patchElements_def options_or_empty_def Let_def get_prop_rest_props
        DatastarDatalinePatchMode_def validateElementPatchMode_def join_ElementPatchModes)

theorem patchElements_invalid_mode_witness:
  "get_prop [(''mode'', JStr ''morph'')] ''mode'' = JStr ''morph'' \<and> ''morph'' \<noteq> []
   \<and> ''morph'' \<notin> set ElementPatchModes
   \<and> patchElements (Some ''<p id=x></p>'') (Some [(''mode'', JStr ''morph'')]) =
     Inl (Error (''Invalid ElementPatchMode: '' @ [dquote] @ ''morph'' @ [dquote]
            @ ''. Valid modes are: outer, inner, replace, prepend, append, before, after, remove''))"
  using patchElements_invalid_mode [of "[(''mode'', JStr ''morph'')]" "''morph''" "Some ''<p id=x></p>''"]
  by (simp add: get_prop_def ElementPatchModes_def)

text \<open>
  C3 as stated fails: the empty string is not one of the eight modes, yet the guard
  \<open>if (patchMode)\<close> skips its validation and the call returns an event.
\<close>

theorem patchElements_empty_mode_counterexample:
  "patchElements (Some ''<p id=x></p>'') (Some [(''mode'', JStr '''')]) =
     Inr [''event: datastar-patch-elements\<newline>'', ''data: mode \<newline>'',
          ''data: elements <p id=x></p>\<newline>'', ''\<newline>'']"
  by (simp add: patchElements_def options_or_empty_def Let_def get_prop_def rest_props_def
        DatastarDatalinePatchMode_def DatastarDatalineSelector_def DatastarDatalineElements_def
        isRemoveWithSelector_def validateRequired_def is_blank_def trim_def is_whitespace_def
        eachOptionIsADataLine_def hasDefaultValue_def DefaultMapping_def
        DefaultElementPatchMode_def DatastarDatalineUseViewTransition_def
        DatastarDatalineOnlyIfMissing_def eachNewlineIsADataLine_def send_def nl_def)

section \<open>Empty elements\<close>

text \<open>
  C1 (as amended). For every call of \<open>patchElements\<close> with well-typed options and the
  empty string as elements: the call succeeds, and returns no \<open>data: elements\<close> line, if
  and only if the mode is \<open>remove\<close> and a selector that is not the empty string is
  supplied; in every other case, with empty or with absent elements, and also without
  options, the call fails with the error \<open>elements is required and cannot be empty\<close>.
\<close>

theorem patchElements_empty_elements:
  assumes "PatchElementsOptions opts"
  shows "(if get_prop opts ''mode'' = JStr ''remove''
             \<and> (\<exists>s. s \<noteq> [] \<and> get_prop opts ''selector'' = JStr s)
          then \<exists>ls. patchElements (Some []) (Some opts) = Inr ls
                 \<and> (\<forall>l\<in>set ls. \<not> prefix ''data: elements'' l)
          else patchElements (Some []) (Some opts)
                 = Inl (Error ''elements is required and cannot be empty'')
               \<and> patchElements None (Some opts)
                 = Inl (Error ''elements is required and cannot be empty''))
       \<and> patchElements (Some []) None = Inl (Error ''elements is required and cannot be empty'')
       \<and> patchElements None None = Inl (Error ''elements is required and cannot be empty'')"
proof -
  let ?required = "Inl (Error ''elements is required and cannot be empty'') :: js_exn + string list"
  from assms have typed: "list_all well_typed_option opts"
    by (simp add: PatchElementsOptions_def)
  have mode_ok: "(if truthy (get_prop (options_or_empty (Some opts)) ''mode'')
      then validateElementPatchMode (get_prop (options_or_empty (Some opts)) ''mode'')
      else Inr ()) = Inr ()"
    by (simp only: options_or_empty_def option.case mode_check_typed [OF typed])
  have sel: "isRemoveWithSelector opts \<longleftrightarrow>
      get_prop opts ''mode'' = JStr ''remove'' \<and> (\<exists>s. s \<noteq> [] \<and> get_prop opts ''selector'' = JStr s)"
    using typed_selector [OF typed]
    by (auto simp: isRemoveWithSelector_def DatastarDatalinePatchMode_def DatastarDatalineSelector_def)
  have none: "patchElements e None = ?required" if "is_blank e" for e
    using that
    by (intro patchElements_blank)
       (simp_all add: options_or_empty_def get_prop_def isRemoveWithSelector_def
          DatastarDatalinePatchMode_def)
  have "\<exists>ls. patchElements (Some []) (Some opts) = Inr ls
              \<and> (\<forall>l\<in>set ls. \<not> prefix ''data: elements'' l)"
    if rws: "isRemoveWithSelector opts"
  proof -
    obtain dl where dl: "eachOptionIsADataLine (rest_props [''eventId'', ''retryDuration''] opts) = Inr dl"
      using eachOptionIsADataLine_typed [OF render_typed [OF typed]] by blast
    have "patchElements (Some []) (Some opts) =
       Inr (send DatastarPatchElements dl
              (Some [(''eventId'', get_prop opts ''eventId''),
                     (''retryDuration'', get_prop opts ''retryDuration'')]))"
      using patchElements_remove_with_selector [of "Some opts" "[]" dl] rws dl
      by (simp add: options_or_empty_def trim_def)
    moreover have "\<forall>x\<in>set dl. \<exists>k line.
        k \<in> {''mode'', ''selector'', ''namespace'', ''useViewTransition''} \<and> x = k @ '' '' @ line"
      using option_lines_form [OF typed dl] by blast
    ultimately show ?thesis
      using send_no_elements_line by blast
  qed
  moreover have "patchElements e (Some opts) = ?required"
    if "\<not> isRemoveWithSelector opts" and "is_blank e" for e
    using that mode_ok by (intro patchElements_blank) (simp_all add: options_or_empty_def)
  moreover have "is_blank (Some [])" and "is_blank None"
    by (simp_all add: is_blank_def)
  ultimately show ?thesis
    using none sel by auto
qed

theorem patchElements_empty_elements_witness:
  "PatchElementsOptions [(''mode'', JStr ''remove''), (''selector'', JStr ''#feed'')]
   \<and> (\<exists>ls. patchElements (Some []) (Some [(''mode'', JStr ''remove''), (''selector'', JStr ''#feed'')])
              = Inr ls
          \<and> list_all (\<lambda>l. \<not> prefix ''data: elements'' l) ls)
   \<and> PatchElementsOptions [(''mode'', JStr ''inner''), (''selector'', JStr ''#feed'')]
   \<and> patchElements (Some []) (Some [(''mode'', JStr ''inner''), (''selector'', JStr ''#feed'')])
       = Inl (Error ''elements is required and cannot be empty'')"
  using patchElements_empty_elements [of "[(''mode'', JStr ''remove''), (''selector'', JStr ''#feed'')]"]
        patchElements_empty_elements [of "[(''mode'', JStr ''inner''), (''selector'', JStr ''#feed'')]"]
  by (simp add: PatchElementsOptions_def get_prop_def ElementPatchModes_def list_all_iff)

text \<open>
  C1 as stated fails: with the mode \<open>remove\<close> and the selector \<open>""\<close> supplied, the call
  with empty elements fails.
\<close>

theorem patchElements_empty_selector_counterexample:
  "patchElements (Some []) (Some [(''mode'', JStr ''remove''), (''selector'', JStr '''')])
     = Inl (Error ''elements is required and cannot be empty'')"
  by (simp add: patchElements_def options_or_empty_def Let_def get_prop_def rest_props_def
        DatastarDatalinePatchMode_def DatastarDatalineSelector_def isRemoveWithSelector_def
        validateElementPatchMode_def ElementPatchModes_def validateRequired_def is_blank_def)

section \<open>The mode line\<close>

lemma split_nl_mode: "m \<in> set ElementPatchModes \<Longrightarrow> split_nl m = [m]"
  by (auto simp: ElementPatchModes_def nl_def)

lemma eachOption_mode_only:
  assumes "m \<in> set ElementPatchModes"
  shows "eachOptionIsADataLine (rest_props [''eventId'', ''retryDuration''] [(''mode'', JStr m)])
     = Inr (if m = ''outer'' then [] else [''mode '' @ m])"
  using split_nl_mode [OF assms]
  by (simp add: eachOptionIsADataLine_def rest_props_def hasDefaultValue_def DefaultMapping_def
        DatastarDatalinePatchMode_def DefaultElementPatchMode_def eachNewlineIsADataLine_def)

text \<open>
  C7 (as amended). For every valid patch mode \<open>m\<close> and every html with at least one
  character that is not white space, \<open>patchElements(html, {mode: m})\<close> returns an event,
  and the event contains the line \<open>data: mode <m>\<close> if and only if \<open>m\<close> is not the
  default mode \<open>outer\<close>.
\<close>

theorem patchElements_mode_line:
  assumes "m \<in> set ElementPatchModes" and "\<exists>c\<in>set html. \<not> is_whitespace c"
  shows "\<exists>ls. patchElements (Some html) (Some [(''mode'', JStr m)]) = Inr ls
           \<and> ((''data: mode '' @ m @ ''\<newline>'') \<in> set ls \<longleftrightarrow> m \<noteq> ''outer'')"
proof -
  have nonblank: "\<not> is_blank (Some html)"
    using assms(2) by (simp add: is_blank_Some list_all_iff)
  have mode_ok: "(if truthy (get_prop (options_or_empty (Some [(''mode'', JStr m)])) ''mode'')
      then validateElementPatchMode (get_prop (options_or_empty (Some [(''mode'', JStr m)])) ''mode'')
      else Inr ()) = Inr ()"
    using assms(1) by (simp add: options_or_empty_def get_prop_def validateElementPatchMode_def)
  have "patchElements (Some html) (Some [(''mode'', JStr m)]) =
     Inr (send DatastarPatchElements
            ((if m = ''outer'' then [] else [''mode '' @ m]) @ eachNewlineIsADataLine ''elements'' html)
            (Some [(''eventId'', get_prop (options_or_empty (Some [(''mode'', JStr m)])) ''eventId''),
                   (''retryDuration'',
                    get_prop (options_or_empty (Some [(''mode'', JStr m)])) ''retryDuration'')]))"
    by (rule patchElements_nonblank [OF mode_ok nonblank])
       (simp add: options_or_empty_def eachOption_mode_only [OF assms(1)])
  moreover have "((''data: mode '' @ m @ ''\<newline>'') \<in> set (send DatastarPatchElements
            ((if m = ''outer'' then [] else [''mode '' @ m]) @ eachNewlineIsADataLine ''elements'' html)
            (Some [(''eventId'', JUndefined), (''retryDuration'', JUndefined)])))
       \<longleftrightarrow> m \<noteq> ''outer''"
    by (auto simp: send_def options_or_empty_def get_prop_def nl_def eachNewlineIsADataLine_def)
  ultimately show ?thesis
    by (simp add: options_or_empty_def get_prop_def)
qed

theorem patchElements_mode_line_witness:
  "''inner'' \<in> set ElementPatchModes \<and> (\<exists>c\<in>set ''<p id=x></p>''. \<not> is_whitespace c)
   \<and> (\<exists>ls. patchElements (Some ''<p id=x></p>'') (Some [(''mode'', JStr ''inner'')]) = Inr ls
          \<and> ''data: mode inner\<newline>'' \<in> set ls)
   \<and> ''outer'' \<in> set ElementPatchModes
   \<and> (\<exists>ls. patchElements (Some ''<p id=x></p>'') (Some [(''mode'', JStr ''outer'')]) = Inr ls
          \<and> ''data: mode outer\<newline>'' \<notin> set ls)"
  using patchElements_mode_line [of "''inner''" "''<p id=x></p>''"]
        patchElements_mode_line [of "''outer''" "''<p id=x></p>''"]
  by (simp add: ElementPatchModes_def is_whitespace_def)

text \<open>
  C7 as stated fails: the html \<open>" "\<close> is not empty and \<open>inner\<close> is a valid mode other
  than \<open>outer\<close>, but the call fails and there is no output with a mode line.
\<close>

theorem patchElements_blank_html_counterexample:
  "patchElements (Some '' '') (Some [(''mode'', JStr ''inner'')])
     = Inl (Error ''elements is required and cannot be empty'')"
  by (simp add: patchElements_def options_or_empty_def Let_def get_prop_def rest_props_def
        DatastarDatalinePatchMode_def DatastarDatalineSelector_def isRemoveWithSelector_def
        validateElementPatchMode_def ElementPatchModes_def validateRequired_def is_blank_def
        trim_def is_whitespace_def)

section \<open>White space only\<close>

lemma patchSignals_blank:
  "is_blank signals \<Longrightarrow>
   patchSignals signals options = Inl (Error ''signals is required and cannot be empty'')"
  by (simp add: patchSignals_def validateRequired_def)

lemma patchElements_blank_general:
  assumes "is_blank elements" and "\<not> isRemoveWithSelector (options_or_empty options)"
  shows "patchElements elements options =
     (case (if truthy (get_prop (options_or_empty options) ''mode'')
            then validateElementPatchMode (get_prop (options_or_empty options) ''mode'')
            else Inr ()) of
        Inl e \<Rightarrow> Inl e
      | Inr u \<Rightarrow> Inl (Error ''elements is required and cannot be empty''))"
  using assms
  by (auto simp: patchElements_def Let_def get_prop_rest_props DatastarDatalinePatchMode_def
        validateRequired_def split: sum.splits)

text \<open>
  C9. A string of white space only is treated by the required-parameter check exactly
  like the empty string and like an absent value: \<open>patchSignals\<close> fails on all three
  with the same error, and outside the remove-with-selector branch so does
  \<open>patchElements\<close> (with the required-parameter error whenever the mode is absent or
  valid); conversely either call returns an event only for a string with at least one
  character that is not white space.
\<close>

theorem whitespace_only_is_empty:
  assumes "list_all is_whitespace s"
  shows "patchSignals (Some s) options = Inl (Error ''signals is required and cannot be empty'')
       \<and> patchSignals (Some []) options = patchSignals (Some s) options
       \<and> patchSignals None options = patchSignals (Some s) options
       \<and> (\<not> isRemoveWithSelector (options_or_empty options) \<longrightarrow>
            (\<exists>e. patchElements (Some s) options = Inl e)
            \<and> patchElements (Some []) options = patchElements (Some s) options
            \<and> patchElements None options = patchElements (Some s) options
            \<and> (get_prop (options_or_empty options) ''mode'' \<in> {JUndefined} \<union> JStr ` set ElementPatchModes
                 \<longrightarrow> patchElements (Some s) options
                       = Inl (Error ''elements is required and cannot be empty'')))
       \<and> (\<forall>t ls. patchSignals (Some t) options = Inr ls \<longrightarrow> (\<exists>c\<in>set t. \<not> is_whitespace c))
       \<and> (\<forall>t ls. \<not> isRemoveWithSelector (options_or_empty options)
              \<longrightarrow> patchElements (Some t) options = Inr ls \<longrightarrow> (\<exists>c\<in>set t. \<not> is_whitespace c))"
proof -
  have blank: "is_blank (Some s)" "is_blank (Some [])" "is_blank None"
    using assms by (simp_all add: is_blank_Some) (simp add: is_blank_def)
  have sig: "\<exists>c\<in>set t. \<not> is_whitespace c" if "patchSignals (Some t) options = Inr ls" for t ls
  proof (rule ccontr)
    assume "\<not> (\<exists>c\<in>set t. \<not> is_whitespace c)"
    then have "is_blank (Some t)" by (simp add: is_blank_Some list_all_iff)
    from patchSignals_blank [OF this, of options] that show False by simp
  qed
  have el: "\<exists>c\<in>set t. \<not> is_whitespace c"
    if "\<not> isRemoveWithSelector (options_or_empty options)"
      and "patchElements (Some t) options = Inr ls" for t ls
  proof (rule ccontr)
    assume "\<not> (\<exists>c\<in>set t. \<not> is_whitespace c)"
    then have "is_blank (Some t)" by (simp add: is_blank_Some list_all_iff)
    from patchElements_blank_general [OF this that(1)] that(2) show False
      by (simp split: sum.splits)
  qed
  have mode: "patchElements (Some s) options = Inl (Error ''elements is required and cannot be empty'')"
    if "\<not> isRemoveWithSelector (options_or_empty options)"
      and "get_prop (options_or_empty options) ''mode'' \<in> {JUndefined} \<union> JStr ` set ElementPatchModes"
    using patchElements_blank_general [OF blank(1) that(1)] that(2)
    by (auto simp: validateElementPatchMode_def)
  have fails: "\<exists>e. patchElements (Some s) options = Inl e"
    if "\<not> isRemoveWithSelector (options_or_empty options)"
    using patchElements_blank_general [OF blank(1) that] by (simp split: sum.splits)
  have A: "patchSignals (Some s) options = Inl (Error ''signals is required and cannot be empty'')"
    by (rule patchSignals_blank [OF blank(1)])
  have B: "patchSignals (Some []) options = patchSignals (Some s) options"
    by (simp only: patchSignals_blank [OF blank(1)] patchSignals_blank [OF blank(2)])
  have C: "patchSignals None options = patchSignals (Some s) options"
    by (simp only: patchSignals_blank [OF blank(1)] patchSignals_blank [OF blank(3)])
  have D: "\<not> isRemoveWithSelector (options_or_empty options) \<longrightarrow>
            (\<exists>e. patchElements (Some s) options = Inl e)
            \<and> patchElements (Some []) options = patchElements (Some s) options
            \<and> patchElements None options = patchElements (Some s) options
            \<and> (get_prop (options_or_empty options) ''mode'' \<in> {JUndefined} \<union> JStr ` set ElementPatchModes
                 \<longrightarrow> patchElements (Some s) options
                       = Inl (Error ''elements is required and cannot be empty''))"
  proof (intro impI conjI)
    assume n: "\<not> isRemoveWithSelector (options_or_empty options)"
    show "\<exists>e. patchElements (Some s) options = Inl e" by (rule fails [OF n])
    show "patchElements (Some []) options = patchElements (Some s) options"
      by (simp only: patchElements_blank_general [OF blank(1) n]
            patchElements_blank_general [OF blank(2) n])
    show "patchElements None options = patchElements (Some s) options"
      by (simp only: patchElements_blank_general [OF blank(1) n]
            patchElements_blank_general [OF blank(3) n])
    assume "get_prop (options_or_empty options) ''mode'' \<in> {JUndefined} \<union> JStr ` set ElementPatchModes"
    then show "patchElements (Some s) options = Inl (Error ''elements is required and cannot be empty'')"
      by (rule mode [OF n])
  qed
  have E: "\<forall>t ls. patchSignals (Some t) options = Inr ls \<longrightarrow> (\<exists>c\<in>set t. \<not> is_whitespace c)"
    using sig by blast
  have F: "\<forall>t ls. \<not> isRemoveWithSelector (options_or_empty options)
              \<longrightarrow> patchElements (Some t) options = Inr ls \<longrightarrow> (\<exists>c\<in>set t. \<not> is_whitespace c)"
    using el by blast
  show ?thesis
    by (intro conjI) (rule A, rule B, rule C, rule D, rule E, rule F)
qed

theorem whitespace_only_is_empty_witness:
  "list_all is_whitespace [CHR 0x20, CHR 0x09, CHR 0x0A]
   \<and> patchSignals (Some [CHR 0x20, CHR 0x09, CHR 0x0A]) None
       = Inl (Error ''signals is required and cannot be empty'')
   \<and> \<not> isRemoveWithSelector (options_or_empty (Some [(''mode'', JStr ''append'')]))
   \<and> patchElements (Some [CHR 0x20, CHR 0x09, CHR 0x0A]) (Some [(''mode'', JStr ''append'')])
       = Inl (Error ''elements is required and cannot be empty'')
   \<and> patchElements (Some []) (Some [(''mode'', JStr ''append'')])
       = patchElements (Some [CHR 0x20, CHR 0x09, CHR 0x0A]) (Some [(''mode'', JStr ''append'')])"
  using whitespace_only_is_empty [of "[CHR 0x20, CHR 0x09, CHR 0x0A]" None]
        whitespace_only_is_empty [of "[CHR 0x20, CHR 0x09, CHR 0x0A]" "Some [(''mode'', JStr ''append'')]"]
  by (simp add: is_whitespace_def isRemoveWithSelector_def options_or_empty_def get_prop_def
        DatastarDatalinePatchMode_def DatastarDatalineSelector_def ElementPatchModes_def)

section \<open>The empty selector\<close>

lemma get_prop_rest_props_taken:
  "k \<in> set taken \<Longrightarrow> get_prop (rest_props taken ps) k = JUndefined"
  by (induction ps) (auto simp: get_prop_def rest_props_def)

text \<open>
  C10. With the mode \<open>remove\<close> and the selector \<open>""\<close>, the remove-with-selector branch
  is not taken: whenever the elements are empty (absent, the empty string, or white space
  only) \<open>patchElements\<close> fails with the required-parameter error, as it does for the same
  options without the selector, and \<open>removeElements("", elements)\<close> fails with its
  required-parameter error, as \<open>removeElements(undefined, elements)\<close> does.
\<close>

theorem empty_selector_is_absent:
  assumes "get_prop opts ''mode'' = JStr ''remove''"
      and "get_prop opts ''selector'' = JStr []"
      and "is_blank elements"
  shows "\<not> isRemoveWithSelector opts
       \<and> patchElements elements (Some opts)
           = Inl (Error ''elements is required and cannot be empty'')
       \<and> patchElements elements (Some (rest_props [''selector''] opts))
           = Inl (Error ''elements is required and cannot be empty'')
       \<and> removeElements (Some []) elements options
           = Inl (Error ''Either selector or elements (with IDs) must be provided to remove elements.'')
       \<and> removeElements None elements options
           = Inl (Error ''Either selector or elements (with IDs) must be provided to remove elements.'')"
proof -
  have a: "\<not> isRemoveWithSelector (options_or_empty (Some opts))"
    using assms(2)
    by (simp add: isRemoveWithSelector_def options_or_empty_def DatastarDatalineSelector_def)
  have b: "\<not> isRemoveWithSelector (options_or_empty (Some (rest_props [''selector''] opts)))"
    by (simp add: isRemoveWithSelector_def options_or_empty_def DatastarDatalineSelector_def
          get_prop_rest_props_taken)
  have c: "get_prop (rest_props [''selector''] opts) ''mode'' = JStr ''remove''"
    using assms(1) by (simp add: get_prop_rest_props)
  show ?thesis
    using patchElements_blank_general [OF assms(3) a] patchElements_blank_general [OF assms(3) b]
      a assms c
    by (simp add: options_or_empty_def remove_is_valid removeElements_def optional_string_def)
qed

theorem empty_selector_is_absent_witness:
  "get_prop [(''mode'', JStr ''remove''), (''selector'', JStr [])] ''mode'' = JStr ''remove''
   \<and> get_prop [(''mode'', JStr ''remove''), (''selector'', JStr [])] ''selector'' = JStr []
   \<and> is_blank (Some [])
   \<and> patchElements (Some []) (Some [(''mode'', JStr ''remove''), (''selector'', JStr [])])
       = Inl (Error ''elements is required and cannot be empty'')
   \<and> patchElements (Some []) (Some [(''mode'', JStr ''remove'')])
       = Inl (Error ''elements is required and cannot be empty'')
   \<and> removeElements (Some []) (Some []) None
       = Inl (Error ''Either selector or elements (with IDs) must be provided to remove elements.'')"
  using empty_selector_is_absent [of "[(''mode'', JStr ''remove''), (''selector'', JStr [])]" "Some []" None]
  by (simp add: get_prop_def is_blank_def rest_props_def)

section \<open>One data line per physical line\<close>

lemma split_nl_not_Nil [simp]: "split_nl s \<noteq> []"
  by (induction s) (auto split: list.splits)

lemma join_split_nl: "join [nl] (split_nl s) = s"
proof (induction s)
  case Nil
  then show ?case by simp
next
  case (Cons c cs)
  obtain l ls where ls: "split_nl cs = l # ls"
    by (cases "split_nl cs") auto
  with Cons show ?case by (cases ls) auto
qed

lemma split_nl_no_newline: "line \<in> set (split_nl s) \<Longrightarrow> nl \<notin> set line"
  by (induction s arbitrary: line) (auto split: if_splits list.splits)

lemma send_append:
  "send event (dl @ el) options
     = butlast (send event dl options) @ map (\<lambda>data. ''data: '' @ data @ [nl]) el @ [[nl]]"
  by (simp add: send_def Let_def butlast_append)

lemma send_append_lines:
  "\<exists>before. send event (dl @ map (\<lambda>line. pre @ '' '' @ line) xs) options
      = before @ map (\<lambda>line. ''data: '' @ pre @ '' '' @ line @ ''\<newline>'') xs @ [''\<newline>'']"
proof
  show "send event (dl @ map (\<lambda>line. pre @ '' '' @ line) xs) options
      = butlast (send event dl options)
        @ map (\<lambda>line. ''data: '' @ pre @ '' '' @ line @ ''\<newline>'') xs @ [''\<newline>'']"
    by (simp add: send_append nl_def comp_def)
qed

lemma patchElements_success_form:
  assumes "patchElements (Some payload) options = Inr ls"
      and "\<not> (isRemoveWithSelector (options_or_empty options) \<and> list_all is_whitespace payload)"
  shows "\<exists>dl opts. ls = send DatastarPatchElements
           (dl @ map (\<lambda>line. ''elements'' @ '' '' @ line) (split_nl payload)) opts"
  using assms
  by (auto simp: patchElements_def Let_def trim_Nil_iff eachNewlineIsADataLine_def
        DatastarDatalineElements_def split: sum.splits if_splits)

lemma patchSignals_success_form:
  assumes "patchSignals (Some payload) options = Inr ls"
  shows "\<exists>dl opts. ls = send DatastarPatchSignals
           (dl @ map (\<lambda>line. ''signals'' @ '' '' @ line) (split_nl payload)) opts"
  using assms
  by (auto simp: patchSignals_def Let_def eachNewlineIsADataLine_def
        DatastarDatalineSignals_def split: sum.splits if_splits)

text \<open>
  C6 (as amended). The physical lines of a payload are the strings between its newline
  characters: joined by newlines they give the payload back, and none contains a
  newline. \<open>eachNewlineIsADataLine\<close> prefixes each of them, in order. Whenever
  \<open>patchElements\<close> returns an event, except for a payload of white space only in the
  remove-with-selector branch, the event ends with one \<open>data: elements <line>\<close> line per
  physical line of the payload, consecutive and in the payload's order, followed by the
  terminator; whenever \<open>patchSignals\<close> returns an event, the same holds with
  \<open>data: signals <line>\<close>.
\<close>

theorem multiline_payload_lines:
  "join ''\<newline>'' (split_nl payload) = payload
   \<and> list_all (\<lambda>line. CHR 0x0A \<notin> set line) (split_nl payload)
   \<and> eachNewlineIsADataLine pre payload = map (\<lambda>line. pre @ '' '' @ line) (split_nl payload)
   \<and> (\<forall>ls. patchElements (Some payload) options = Inr ls
         \<longrightarrow> \<not> (isRemoveWithSelector (options_or_empty options) \<and> list_all is_whitespace payload)
         \<longrightarrow> (\<exists>before. ls = before
                 @ map (\<lambda>line. ''data: elements '' @ line @ ''\<newline>'') (split_nl payload)
                 @ [''\<newline>'']))
   \<and> (\<forall>ls. patchSignals (Some payload) options = Inr ls
         \<longrightarrow> (\<exists>before. ls = before
                 @ map (\<lambda>line. ''data: signals '' @ line @ ''\<newline>'') (split_nl payload)
                 @ [''\<newline>'']))"
proof (intro conjI allI impI)
  show "join ''\<newline>'' (split_nl payload) = payload"
    using join_split_nl [of payload] by (simp add: nl_def)
  show "list_all (\<lambda>line. CHR 0x0A \<notin> set line) (split_nl payload)"
    using split_nl_no_newline [of _ payload] by (auto simp: list_all_iff nl_def)
  show "eachNewlineIsADataLine pre payload = map (\<lambda>line. pre @ '' '' @ line) (split_nl payload)"
    by (simp add: eachNewlineIsADataLine_def)
next
  fix ls
  assume "patchElements (Some payload) options = Inr ls"
    and "\<not> (isRemoveWithSelector (options_or_empty options) \<and> list_all is_whitespace payload)"
  then obtain dl opts where "ls = send DatastarPatchElements
      (dl @ map (\<lambda>line. ''elements'' @ '' '' @ line) (split_nl payload)) opts"
    using patchElements_success_form by blast
  with send_append_lines [of DatastarPatchElements dl "''elements''" "split_nl payload" opts]
  show "\<exists>before. ls = before
      @ map (\<lambda>line. ''data: elements '' @ line @ ''\<newline>'') (split_nl payload) @ [''\<newline>'']"
    by simp
next
  fix ls
  assume "patchSignals (Some payload) options = Inr ls"
  then obtain dl opts where "ls = send DatastarPatchSignals
      (dl @ map (\<lambda>line. ''signals'' @ '' '' @ line) (split_nl payload)) opts"
    using patchSignals_success_form by blast
  with send_append_lines [of DatastarPatchSignals dl "''signals''" "split_nl payload" opts]
  show "\<exists>before. ls = before
      @ map (\<lambda>line. ''data: signals '' @ line @ ''\<newline>'') (split_nl payload) @ [''\<newline>'']"
    by simp
qed

lemma patch_three_lines:
  "patchElements (Some ''<ul id=l>\<newline><li>a</li>\<newline></ul>'') (Some [(''mode'', JStr ''inner'')])
   = Inr [''event: datastar-patch-elements\<newline>'', ''data: mode inner\<newline>'',
          ''data: elements <ul id=l>\<newline>'', ''data: elements <li>a</li>\<newline>'',
          ''data: elements </ul>\<newline>'', ''\<newline>'']"
  by (simp add: patchElements_def options_or_empty_def Let_def get_prop_def rest_props_def
        DatastarDatalinePatchMode_def DatastarDatalineSelector_def DatastarDatalineElements_def
        isRemoveWithSelector_def validateElementPatchMode_def ElementPatchModes_def
        validateRequired_def is_blank_def trim_def is_whitespace_def
        eachOptionIsADataLine_def hasDefaultValue_def DefaultMapping_def
        DefaultElementPatchMode_def DatastarDatalineUseViewTransition_def
        DatastarDatalineOnlyIfMissing_def eachNewlineIsADataLine_def send_def nl_def)

theorem multiline_payload_lines_witness:
  "patchElements (Some ''<ul id=l>\<newline><li>a</li>\<newline></ul>'') (Some [(''mode'', JStr ''inner'')])
     = Inr [''event: datastar-patch-elements\<newline>'', ''data: mode inner\<newline>'',
          ''data: elements <ul id=l>\<newline>'', ''data: elements <li>a</li>\<newline>'',
          ''data: elements </ul>\<newline>'', ''\<newline>'']
   \<and> \<not> isRemoveWithSelector (options_or_empty (Some [(''mode'', JStr ''inner'')]))
   \<and> (\<exists>before. [''event: datastar-patch-elements\<newline>'', ''data: mode inner\<newline>'',
          ''data: elements <ul id=l>\<newline>'', ''data: elements <li>a</li>\<newline>'',
          ''data: elements </ul>\<newline>'', ''\<newline>'']
        = before @ [''data: elements <ul id=l>\<newline>'', ''data: elements <li>a</li>\<newline>'',
                    ''data: elements </ul>\<newline>''] @ [''\<newline>''])"
proof -
  have rws: "\<not> isRemoveWithSelector (options_or_empty (Some [(''mode'', JStr ''inner'')]))"
    by (simp add: isRemoveWithSelector_def options_or_empty_def get_prop_def
          DatastarDatalinePatchMode_def)
  have sp: "split_nl ''<ul id=l>\<newline><li>a</li>\<newline></ul>'' = [''<ul id=l>'', ''<li>a</li>'', ''</ul>'']"
    by (simp add: nl_def)
  from multiline_payload_lines [of "''<ul id=l>\<newline><li>a</li>\<newline></ul>''" "''elements''"
      "Some [(''mode'', JStr ''inner'')]"] patch_three_lines rws sp
  show ?thesis by simp
qed

text \<open>
  C6 as stated fails: the payload of one newline has two physical lines, and with the
  mode \<open>remove\<close> and a selector the event is emitted without any \<open>data: elements\<close> line.
\<close>

theorem patchElements_blank_lines_counterexample:
  "patchElements (Some ''\<newline>'') (Some [(''mode'', JStr ''remove''), (''selector'', JStr ''#feed'')])
   = Inr [''event: datastar-patch-elements\<newline>'', ''data: mode remove\<newline>'',
          ''data: selector #feed\<newline>'', ''\<newline>'']"
  by (simp add: patchElements_def options_or_empty_def Let_def get_prop_def rest_props_def
        DatastarDatalinePatchMode_def DatastarDatalineSelector_def DatastarDatalineElements_def
        isRemoveWithSelector_def validateElementPatchMode_def ElementPatchModes_def
        validateRequired_def is_blank_def trim_def is_whitespace_def
        eachOptionIsADataLine_def hasDefaultValue_def DefaultMapping_def
        DefaultElementPatchMode_def DatastarDatalineUseViewTransition_def
        DatastarDatalineOnlyIfMissing_def eachNewlineIsADataLine_def send_def nl_def)

section \<open>Removing signals\<close>

lemma assign_ordinary_key:
  "''__proto__'' \<noteq> k \<Longrightarrow> assign obj k v = obj\<lparr>own := define_own k v (own obj)\<rparr>"
  by (auto simp: assign_def)

lemma foldl_assign_ordinary_keys:
  "''__proto__'' \<notin> set ks \<Longrightarrow>
   foldl (\<lambda>obj key. assign obj key JNull) obj ks
     = obj\<lparr>own := foldl (\<lambda>ps key. define_own key JNull ps) (own obj) ks\<rparr>"
  by (induction ks arbitrary: obj) (simp_all add: assign_ordinary_key)

text \<open>
  For every list of keys without \<open>__proto__\<close>, \<open>removeSignals\<close> returns what
  \<open>patchSignals\<close> returns, with the same options, on the JSON text of the object that
  maps each key of the list to \<open>null\<close>; a single key behaves as the list of that key.
\<close>

lemma removeSignals_refines_spec:
  assumes "''__proto__'' \<notin> set ks"
  shows "removeSignals (ManyKeys ks) options
     = patchSignals (Some (JSON_stringify (null_patch_spec ks))) options"
  using foldl_assign_ordinary_keys [OF assms, of empty_object]
  by (simp add: removeSignals_def null_patch_spec_def empty_object_def)

lemma removeSignals_single_key:
  "removeSignals (OneKey k) options = removeSignals (ManyKeys [k]) options"
  by (simp add: removeSignals_def)

text \<open>The example of the specification: the keys \<open>a\<close> and \<open>b\<close>.\<close>

lemma null_patch_a_b:
  "JSON_stringify (null_patch_spec [''a'', ''b''])
     = ''{'' @ [dquote] @ ''a'' @ [dquote] @ '':null,'' @ [dquote] @ ''b'' @ [dquote] @ '':null}''"
  by (simp add: JSON_stringify_def null_patch_spec_def define_own_def is_array_index_def
        is_digit_def QuoteJSONString_def json_escape_def dquote_def)

lemma removeSignals_a_b:
  "removeSignals (ManyKeys [''a'', ''b'']) options
     = patchSignals (Some (''{'' @ [dquote] @ ''a'' @ [dquote] @ '':null,''
                            @ [dquote] @ ''b'' @ [dquote] @ '':null}'')) options"
  using removeSignals_refines_spec [of "[''a'', ''b'']" options]
  by (simp add: null_patch_a_b)

text \<open>
  C8 at the key \<open>__proto__\<close>. The assignment \<open>patch["__proto__"] = null\<close> on the literal
  \<open>{}\<close> runs the setter of \<open>Object.prototype\<close> and creates no own property, so
  \<open>removeSignals(["__proto__"])\<close> sends the patch \<open>{}\<close>, while \<open>patchSignals\<close> on the
  JSON text of the object that maps \<open>__proto__\<close> to \<open>null\<close> sends \<open>{"__proto__":null}\<close>.
\<close>

theorem removeSignals_proto_key:
  "removeSignals (ManyKeys [''__proto__'']) None
     = Inr [''event: datastar-patch-signals\<newline>'', ''data: signals {}\<newline>'', ''\<newline>'']
   \<and> patchSignals (Some (JSON_stringify (null_patch_spec [''__proto__'']))) None
     = Inr [''event: datastar-patch-signals\<newline>'',
            ''data: signals {'' @ [dquote] @ ''__proto__'' @ [dquote] @ '':null}\<newline>'',
            ''\<newline>'']"
  by (simp add: removeSignals_def assign_def empty_object_def JSON_stringify_def
        null_patch_spec_def define_own_def is_array_index_def is_digit_def
        QuoteJSONString_def json_escape_def dquote_def
        patchSignals_def validateRequired_def is_blank_def trim_def is_whitespace_def
        options_or_empty_def Let_def get_prop_def rest_props_def eachOptionIsADataLine_def
        eachNewlineIsADataLine_def DatastarDatalineSignals_def send_def nl_def)

section \<open>Reading signals\<close>

text \<open>
  Where \<open>readSignals\<close> cannot throw: for every method other than \<open>GET\<close>, and for \<open>GET\<close>
  once the \<open>URL\<close> constructor has returned, every exception is caught and the promise is
  fulfilled with one of the two variants.
\<close>

lemma non_GET_is_caught:
  "http_method request \<noteq> ''GET'' \<Longrightarrow> \<exists>r. readSignals P HOST request = Inr r"
  by (simp add: readSignals_def)

lemma GET_with_URL_is_caught:
  assumes "http_method request = ''GET''"
      and "URL_searchParams P (''http://'' @ (case HOST of None \<Rightarrow> ''localhost'' | Some h \<Rightarrow> h)
             @ url request) = Inr params"
  shows "\<exists>r. readSignals P HOST request = Inr r"
  using assms by (simp add: readSignals_def)

text \<open>Success is returned only for a value that \<open>isRecord\<close> accepts; scalars and \<open>null\<close>
  are rejected.\<close>

lemma catch_block_not_Success: "catch_block e \<noteq> Success signals"
  by (cases e) simp_all

lemma readSignals_success_isRecord:
  "readSignals P HOST request = Inr (Success signals) \<Longrightarrow> isRecord signals"
  by (auto simp: readSignals_def try_catch_def Let_def catch_block_not_Success
           split: if_splits sum.splits option.splits)

lemma readSignals_scalar_fails:
  assumes "http_method request \<noteq> ''GET''"
      and "JSON_parse P (concat (chunks request)) = Inr v" and "\<not> isRecord v"
  shows "readSignals P HOST request = Inr (Failure ''Parsed JSON body is not of type record'')"
  using assms by (simp add: readSignals_def try_catch_def)

text \<open>
  C2 at an array. Whenever the request body (methods other than \<open>GET\<close>) or the
  \<open>datastar\<close> query parameter (\<open>GET\<close>) parses as a JSON array, \<open>readSignals\<close> returns the
  success variant with that array as the signals: \<open>isRecord\<close> tests
  \<open>typeof obj === "object"\<close>, which holds for arrays.
\<close>

theorem readSignals_accepts_array:
  assumes "JSON_parse P text = Inr (JsonArray xs)"
  shows "(http_method request \<noteq> ''GET'' \<and> concat (chunks request) = text
            \<longrightarrow> readSignals P HOST request = Inr (Success (JsonArray xs)))
       \<and> (http_method request = ''GET''
            \<and> URL_searchParams P (''http://'' @ (case HOST of None \<Rightarrow> ''localhost'' | Some h \<Rightarrow> h)
                 @ url request) = Inr params
            \<and> map_of params ''datastar'' = Some text
            \<longrightarrow> readSignals P HOST request = Inr (Success (JsonArray xs)))"
  using assms by (simp add: readSignals_def try_catch_def)

theorem readSignals_accepts_array_witness:
  "JSON_parse \<lparr>URL_searchParams = (\<lambda>u. Inr [(''datastar'', ''[1,2]'')]),
               JSON_parse = (\<lambda>s. if s = ''[1,2]'' then Inr (JsonArray [JsonNumber 1, JsonNumber 2])
                                  else Inl (SyntaxError ''Unexpected token''))\<rparr> ''[1,2]''
     = Inr (JsonArray [JsonNumber 1, JsonNumber 2])
   \<and> readSignals \<lparr>URL_searchParams = (\<lambda>u. Inr [(''datastar'', ''[1,2]'')]),
               JSON_parse = (\<lambda>s. if s = ''[1,2]'' then Inr (JsonArray [JsonNumber 1, JsonNumber 2])
                                  else Inl (SyntaxError ''Unexpected token''))\<rparr>
        None \<lparr>http_method = ''POST'', url = ''/merge'', chunks = [''[1,'', ''2]'']\<rparr>
     = Inr (Success (JsonArray [JsonNumber 1, JsonNumber 2]))
   \<and> readSignals \<lparr>URL_searchParams = (\<lambda>u. Inr [(''datastar'', ''[1,2]'')]),
               JSON_parse = (\<lambda>s. if s = ''[1,2]'' then Inr (JsonArray [JsonNumber 1, JsonNumber 2])
                                  else Inl (SyntaxError ''Unexpected token''))\<rparr>
        None \<lparr>http_method = ''GET'', url = ''/merge?datastar=%5B1%2C2%5D'', chunks = []\<rparr>
     = Inr (Success (JsonArray [JsonNumber 1, JsonNumber 2]))"
  using readSignals_accepts_array [of
      "\<lparr>URL_searchParams = (\<lambda>u. Inr [(''datastar'', ''[1,2]'')]),
        JSON_parse = (\<lambda>s. if s = ''[1,2]'' then Inr (JsonArray [JsonNumber 1, JsonNumber 2])
                           else Inl (SyntaxError ''Unexpected token''))\<rparr>"
      "''[1,2]''" "[JsonNumber 1, JsonNumber 2]"
      "\<lparr>http_method = ''POST'', url = ''/merge'', chunks = [''[1,'', ''2]'']\<rparr>" None]
    readSignals_accepts_array [of
      "\<lparr>URL_searchParams = (\<lambda>u. Inr [(''datastar'', ''[1,2]'')]),
        JSON_parse = (\<lambda>s. if s = ''[1,2]'' then Inr (JsonArray [JsonNumber 1, JsonNumber 2])
                           else Inl (SyntaxError ''Unexpected token''))\<rparr>"
      "''[1,2]''" "[JsonNumber 1, JsonNumber 2]"
      "\<lparr>http_method = ''GET'', url = ''/merge?datastar=%5B1%2C2%5D'', chunks = []\<rparr>" None
      "[(''datastar'', ''[1,2]'')]"]
  by simp

text \<open>
  C5 at a \<open>GET\<close> request whose URL the constructor rejects. The expression
  \<open>new URL(`http://${process.env.HOST ?? "localhost"}${request.url}`)\<close> is evaluated before
  the \<open>try\<close> block, so its exception rejects the promise of \<open>readSignals\<close> instead of
  becoming the failure variant.
\<close>

theorem readSignals_URL_exception_escapes:
  assumes "http_method request = ''GET''"
      and "URL_searchParams P (''http://'' @ (case HOST of None \<Rightarrow> ''localhost'' | Some h \<Rightarrow> h)
             @ url request) = Inl e"
  shows "readSignals P HOST request = Inl e"
  using assms by (simp add: readSignals_def)

theorem readSignals_URL_exception_escapes_witness:
  "http_method \<lparr>http_method = ''GET'', url = ''/merge?datastar=%7B%7D'', chunks = []\<rparr> = ''GET''
   \<and> URL_searchParams
        \<lparr>URL_searchParams = (\<lambda>u. if u = ''http://::1/merge?datastar=%7B%7D''
                                    then Inl (TypeError ''Invalid URL'') else Inr []),
         JSON_parse = (\<lambda>s. Inr (JsonObject []))\<rparr>
        (''http://'' @ (case Some ''::1'' of None \<Rightarrow> ''localhost'' | Some h \<Rightarrow> h)
          @ url \<lparr>http_method = ''GET'', url = ''/merge?datastar=%7B%7D'', chunks = []\<rparr>)
       = Inl (TypeError ''Invalid URL'')
   \<and> readSignals
        \<lparr>URL_searchParams = (\<lambda>u. if u = ''http://::1/merge?datastar=%7B%7D''
                                    then Inl (TypeError ''Invalid URL'') else Inr []),
         JSON_parse = (\<lambda>s. Inr (JsonObject []))\<rparr>
        (Some ''::1'') \<lparr>http_method = ''GET'', url = ''/merge?datastar=%7B%7D'', chunks = []\<rparr>
       = Inl (TypeError ''Invalid URL'')"
  using readSignals_URL_exception_escapes [of
      "\<lparr>http_method = ''GET'', url = ''/merge?datastar=%7B%7D'', chunks = []\<rparr>"
      "\<lparr>URL_searchParams = (\<lambda>u. if u = ''http://::1/merge?datastar=%7B%7D''
                                    then Inl (TypeError ''Invalid URL'') else Inr []),
        JSON_parse = (\<lambda>s. Inr (JsonObject []))\<rparr>"
      "Some ''::1''" "TypeError ''Invalid URL''"]
  by simp

end
